theory Spec2Isabelle
  imports Main
begin

section \<open>The tidy-build helper: scripts/build_for_tidy_conan.py\<close>

subsection \<open>What the script can observe and do\<close>

text \<open>
  The script prints lines, asks the file system whether a path is a directory, starts
  external commands with \<^verbatim>\<open>subprocess.run(command, check=True, cwd=cwd)\<close> and ends the
  process with \<^verbatim>\<open>sys.exit\<close>. Every such effect is an event of the run, in program order:
  \<open>Stdout l\<close> and \<open>Stderr l\<close> are one printed line each (without the newline),
  \<open>Run command cwd\<close> is one call of \<^verbatim>\<open>subprocess.run\<close>, \<open>ParserError err\<close> is the
  usage text and error message that \<^verbatim>\<open>argparse\<close> writes to stderr when it rejects the
  command line, and \<open>ParserHelp\<close> is the help text it writes to stdout.

  A string is the list of its bytes. Every test the script and the parser make on a
  string (equality with an ASCII literal, its first character, a space or \<^verbatim>\<open>=\<close> inside
  it, ASCII digits) has the same answer on the UTF-8 bytes as on the characters. The one
  exception is Python's \<^verbatim>\<open>\d\<close>, which also accepts the decimal digits of other scripts: a
  token made of \<^verbatim>\<open>-\<close> and such digits is not covered.
\<close>

datatype argparse_error =
    ArgumentsRequired "string list"
  | InvalidChoice string
  | UnrecognizedArguments "string list"
  | IgnoredExplicitArgument string
  | AmbiguousOption string

datatype event =
    Stdout string
  | Stderr string
  | Run "string list" "string option"
  | ParserError argparse_error
  | ParserHelp

text \<open>
  A call of \<^verbatim>\<open>subprocess.run\<close> either starts the command and waits for its return code
  (negative when a signal killed it), or raises because the command could not be started:
  no such executable, no permission.
\<close>

datatype os_error = FileNotFoundError | PermissionError

datatype proc_result =
    Completed int
  | StartFailed os_error

record env =
  isdir :: "string \<Rightarrow> bool"
  subprocess_run :: "string list \<Rightarrow> string option \<Rightarrow> proc_result"

text \<open>
  How a run stops early: \<^verbatim>\<open>sys.exit(n)\<close> raises \<open>SystemExit n\<close>; an exception that no
  handler of the script catches is \<open>Uncaught\<close> when \<^verbatim>\<open>subprocess.run\<close> raised it, and
  \<open>TypeError\<close> when \<^verbatim>\<open>os.path.isdir\<close> was given a value that is no path. A computation
  takes the events so far and returns them extended, with \<open>Inl\<close> of the abort or \<open>Inr\<close> of
  its value.
\<close>

datatype abort =
    SystemExit int
  | Uncaught os_error
  | TypeError

type_synonym 'a io = "event list \<Rightarrow> (abort + 'a) \<times> event list"


fun runs :: "event list \<Rightarrow> string list list" where
  "runs [] = []"
| "runs (Run command cwd # evs) = command # runs evs"
| "runs (_ # evs) = runs evs"

fun stderr_lines :: "event list \<Rightarrow> string list" where
  "stderr_lines [] = []"
| "stderr_lines (Stderr l # evs) = l # stderr_lines evs"
| "stderr_lines (_ # evs) = stderr_lines evs"

subsection \<open>error_exit and run_command\<close>

definition error_exit :: "string \<Rightarrow> 'a io" where
  "error_exit message out = (Inl (SystemExit 1), out @ [Stderr (''Error: '' @ message)])"

text \<open>\<^verbatim>\<open>' '.join(command)\<close>\<close>

fun str_join :: "string \<Rightarrow> string list \<Rightarrow> string" where
  "str_join sep [] = []"
| "str_join sep [x] = x"
| "str_join sep (x # y # ys) = x @ sep @ str_join sep (y # ys)"

text \<open>
  Only \<^verbatim>\<open>CalledProcessError\<close> (the command ran and returned non-zero) has a handler.
  \<^verbatim>\<open>if error_message:\<close> is false for \<^verbatim>\<open>None\<close> and for the empty string.
\<close>

definition run_command :: "env \<Rightarrow> string list \<Rightarrow> string option \<Rightarrow> string option \<Rightarrow> unit io" where
  "run_command e command cwd error_message out =
     (let out' = out @ [Run command cwd] in
      case subprocess_run e command cwd of
        Completed returncode \<Rightarrow>
          if returncode = 0 then (Inr (), out')
          else (case error_message of
                  Some m \<Rightarrow>
                    if m \<noteq> [] then error_exit m out'
                    else error_exit (''Command failed: '' @ str_join '' '' command) out'
                | None \<Rightarrow> error_exit (''Command failed: '' @ str_join '' '' command) out')
      | StartFailed x \<Rightarrow> (Inl (Uncaught x), out'))"

subsection \<open>build_for_tidy_with_conan\<close>

definition conan_profile_detect_cmd :: "string list" where
  "conan_profile_detect_cmd = [''conan'', ''profile'', ''detect'', ''--exist-ok'']"

definition conan_lib_build_cmd :: "string \<Rightarrow> string \<Rightarrow> string list" where
  "conan_lib_build_cmd lib_src_dir transport =
     [''conan'',
      ''build'',
      lib_src_dir,
      ''--output-folder=build'',
      ''--build=missing'',
      ''--options=&:transport='' @ transport,
      ''--settings=build_type=Debug'',
      ''--settings=compiler.cppstd=20'',
      ''--settings:build=compiler.cppstd=20'',
      ''--conf=tools.cmake.cmaketoolchain:extra_variables={'CMAKE_EXPORT_COMPILE_COMMANDS': 'ON'}'']"

definition build_for_tidy_with_conan :: "env \<Rightarrow> string \<Rightarrow> string \<Rightarrow> unit io" where
  "build_for_tidy_with_conan e lib_src_dir transport out =
     (if lib_src_dir = [] then
        error_exit ''Library source directory not provided.'' out
      else if \<not> isdir e lib_src_dir then
        error_exit (''Library source directory does not exist: '' @ lib_src_dir) out
      else if transport \<notin> set [''grpc'', ''mqtt''] then
        error_exit ''Transport should one of: 'grpc' or 'mqtt'.'' out
      else
        (case run_command e conan_profile_detect_cmd None
                (Some ''Conan profile detection failed.'')
                (out @ [Stdout ''Detecting Conan profile...'']) of
           (Inl a, out1) \<Rightarrow> (Inl a, out1)
         | (Inr _, out1) \<Rightarrow>
             (case run_command e (conan_lib_build_cmd lib_src_dir transport) None
                     (Some ''Failed to build library.'')
                     (out1 @ [Stdout ''Building library to generate compilation database...'']) of
                (Inl a, out2) \<Rightarrow> (Inl a, out2)
              | (Inr _, out2) \<Rightarrow> (Inr (), out2 @ [Stdout ''Conan build process complete.'']))))"

subsection \<open>The argument parser of the command-line entry point\<close>


datatype dest = Lib_src_dir | Transport
































subsection \<open>The command-line entry point\<close>





subsection \<open>Invariants of the parser\<close>




section \<open>The package recipe: end_to_end/conanfile.py\<close>

text \<open>
  The recipe object as the methods below see it: the value of \<^verbatim>\<open>self.settings.os\<close>, the
  current options with their values, and the references passed to \<^verbatim>\<open>self.requires\<close> so
  far, in call order. The methods \<^verbatim>\<open>generate\<close>, \<^verbatim>\<open>build\<close> and \<^verbatim>\<open>package\<close> only call the
  CMake tooling and have no logic of their own to embed.
\<close>

record conanfile =
  settings_os :: string
  options :: "string \<rightharpoonup> bool"
  requires :: "string list"

definition Pkg_settings :: "string list" where
  "Pkg_settings = [''os'', ''compiler'', ''build_type'', ''arch'']"

definition Pkg_options :: "(string \<times> bool list) list" where
  "Pkg_options = [(''shared'', [True, False]), (''fPIC'', [True, False])]"

definition Pkg_default_options :: "(string \<times> bool) list" where
  "Pkg_default_options = [(''shared'', False), (''fPIC'', True)]"

text \<open>A fresh recipe: every declared option holds its default, nothing is required yet.\<close>

definition Pkg :: "string \<Rightarrow> conanfile" where
  "Pkg os = \<lparr>settings_os = os, options = map_of Pkg_default_options, requires = []\<rparr>"

definition config_options :: "conanfile \<Rightarrow> conanfile" where
  "config_options self =
     (if settings_os self = ''Windows'' then self\<lparr>options := (options self)(''fPIC'' := None)\<rparr>
      else self)"

definition self_requires :: "string \<Rightarrow> conanfile \<Rightarrow> conanfile" where
  "self_requires ref self = self\<lparr>requires := requires self @ [ref]\<rparr>"

definition requirements :: "conanfile \<Rightarrow> conanfile" where
  "requirements self =
     self_requires ''astarte-device-sdk/0.7.0''
       (self_requires ''tomlplusplus/3.4.0''
         (self_requires ''nlohmann_json/3.12.0''
           (self_requires ''cpr/1.12.0'' self)))"

text \<open>A reference \<^verbatim>\<open>name/version\<close> read as the pair of its name and its version.\<close>

definition ref_name_version :: "string \<Rightarrow> string \<times> string" where
  "ref_name_version ref =
     (takeWhile (\<lambda>c. c \<noteq> CHR ''/'') ref, drop 1 (dropWhile (\<lambda>c. c \<noteq> CHR ''/'') ref))"

section \<open>Sample environments\<close>

text \<open>
  A machine where \<^verbatim>\<open>sdk\<close> is the only directory: with every command succeeding, with
  profile detection returning 1, with the build returning 1, with no \<^verbatim>\<open>conan\<close>
  executable at all, and with an executable that may be run for profile detection only.
\<close>

definition env_ok :: env where
  "env_ok = \<lparr>isdir = (\<lambda>path. path = ''sdk''), subprocess_run = (\<lambda>command cwd. Completed 0)\<rparr>"

definition env_no_profile :: env where
  "env_no_profile =
     \<lparr>isdir = (\<lambda>path. path = ''sdk''),
      subprocess_run = (\<lambda>command cwd.
        if command = conan_profile_detect_cmd then Completed 1 else Completed 0)\<rparr>"

definition env_build_fails :: env where
  "env_build_fails =
     \<lparr>isdir = (\<lambda>path. path = ''sdk''),
      subprocess_run = (\<lambda>command cwd.
        if command = conan_profile_detect_cmd then Completed 0 else Completed 1)\<rparr>"

definition env_no_conan :: env where
  "env_no_conan =
     \<lparr>isdir = (\<lambda>path. path = ''sdk''),
      subprocess_run = (\<lambda>command cwd. StartFailed FileNotFoundError)\<rparr>"

definition env_build_not_started :: env where
  "env_build_not_started =
     \<lparr>isdir = (\<lambda>path. path = ''sdk''),
      subprocess_run = (\<lambda>command cwd.
        if command = conan_profile_detect_cmd then Completed 0 else StartFailed PermissionError)\<rparr>"

section \<open>Properties of the helper\<close>


subsection \<open>Events and the two building blocks\<close>

lemma runs_append: "runs (xs @ ys) = runs xs @ runs ys"
  by (induction xs rule: runs.induct) simp_all

lemma stderr_lines_append: "stderr_lines (xs @ ys) = stderr_lines xs @ stderr_lines ys"
  by (induction xs rule: stderr_lines.induct) simp_all

lemma run_command_returned_zero:
  "subprocess_run e command cwd = Completed 0 \<Longrightarrow>
   run_command e command cwd error_message out = (Inr (), out @ [Run command cwd])"
  by (simp add: run_command_def)

lemma run_command_returned_nonzero:
  "subprocess_run e command cwd = Completed rc \<Longrightarrow> rc \<noteq> 0 \<Longrightarrow> m \<noteq> [] \<Longrightarrow>
   run_command e command cwd (Some m) out =
     (Inl (SystemExit 1), out @ [Run command cwd, Stderr (''Error: '' @ m)])"
  by (simp add: run_command_def error_exit_def)

lemma run_command_not_started:
  "subprocess_run e command cwd = StartFailed x \<Longrightarrow>
   run_command e command cwd error_message out = (Inl (Uncaught x), out @ [Run command cwd])"
  by (simp add: run_command_def)

subsection \<open>Every outcome of build_for_tidy_with_conan\<close>

lemma build_valid:
  "lib_src_dir \<noteq> [] \<Longrightarrow> isdir e lib_src_dir \<Longrightarrow> transport \<in> {''grpc'', ''mqtt''} \<Longrightarrow>
   build_for_tidy_with_conan e lib_src_dir transport out =
     (case run_command e conan_profile_detect_cmd None
                (Some ''Conan profile detection failed.'')
                (out @ [Stdout ''Detecting Conan profile...'']) of
           (Inl a, out1) \<Rightarrow> (Inl a, out1)
         | (Inr _, out1) \<Rightarrow>
             (case run_command e (conan_lib_build_cmd lib_src_dir transport) None
                     (Some ''Failed to build library.'')
                     (out1 @ [Stdout ''Building library to generate compilation database...'']) of
                (Inl a, out2) \<Rightarrow> (Inl a, out2)
              | (Inr _, out2) \<Rightarrow> (Inr (), out2 @ [Stdout ''Conan build process complete.''])))"
  unfolding build_for_tidy_with_conan_def by auto

lemma build_detect_not_started:
  assumes "lib_src_dir \<noteq> []" "isdir e lib_src_dir" "transport \<in> {''grpc'', ''mqtt''}"
    and "subprocess_run e conan_profile_detect_cmd None = StartFailed x"
  shows "build_for_tidy_with_conan e lib_src_dir transport out =
     (Inl (Uncaught x),
      out @ [Stdout ''Detecting Conan profile...'', Run conan_profile_detect_cmd None])"
  using assms by (simp add: build_valid run_command_not_started)

lemma build_detect_nonzero:
  assumes "lib_src_dir \<noteq> []" "isdir e lib_src_dir" "transport \<in> {''grpc'', ''mqtt''}"
    and "subprocess_run e conan_profile_detect_cmd None = Completed rc" "rc \<noteq> 0"
  shows "build_for_tidy_with_conan e lib_src_dir transport out =
     (Inl (SystemExit 1),
      out @ [Stdout ''Detecting Conan profile...'', Run conan_profile_detect_cmd None,
             Stderr ''Error: Conan profile detection failed.''])"
  using assms by (simp add: build_valid run_command_returned_nonzero)

lemma build_build_not_started:
  assumes "lib_src_dir \<noteq> []" "isdir e lib_src_dir" "transport \<in> {''grpc'', ''mqtt''}"
    and "subprocess_run e conan_profile_detect_cmd None = Completed 0"
    and "subprocess_run e (conan_lib_build_cmd lib_src_dir transport) None = StartFailed x"
  shows "build_for_tidy_with_conan e lib_src_dir transport out =
     (Inl (Uncaught x),
      out @ [Stdout ''Detecting Conan profile...'', Run conan_profile_detect_cmd None,
             Stdout ''Building library to generate compilation database...'',
             Run (conan_lib_build_cmd lib_src_dir transport) None])"
  using assms by (simp add: build_valid run_command_returned_zero run_command_not_started)

lemma build_build_nonzero:
  assumes "lib_src_dir \<noteq> []" "isdir e lib_src_dir" "transport \<in> {''grpc'', ''mqtt''}"
    and "subprocess_run e conan_profile_detect_cmd None = Completed 0"
    and "subprocess_run e (conan_lib_build_cmd lib_src_dir transport) None = Completed rc"
    and "rc \<noteq> 0"
  shows "build_for_tidy_with_conan e lib_src_dir transport out =
     (Inl (SystemExit 1),
      out @ [Stdout ''Detecting Conan profile...'', Run conan_profile_detect_cmd None,
             Stdout ''Building library to generate compilation database...'',
             Run (conan_lib_build_cmd lib_src_dir transport) None,
             Stderr ''Error: Failed to build library.''])"
  using assms by (simp add: build_valid run_command_returned_zero run_command_returned_nonzero)

lemma build_complete:
  assumes "lib_src_dir \<noteq> []" "isdir e lib_src_dir" "transport \<in> {''grpc'', ''mqtt''}"
    and "subprocess_run e conan_profile_detect_cmd None = Completed 0"
    and "subprocess_run e (conan_lib_build_cmd lib_src_dir transport) None = Completed 0"
  shows "build_for_tidy_with_conan e lib_src_dir transport out =
     (Inr (),
      out @ [Stdout ''Detecting Conan profile...'', Run conan_profile_detect_cmd None,
             Stdout ''Building library to generate compilation database...'',
             Run (conan_lib_build_cmd lib_src_dir transport) None,
             Stdout ''Conan build process complete.''])"
  using assms by (simp add: build_valid run_command_returned_zero)

lemma build_rejected:
  assumes "lib_src_dir = [] \<or> \<not> isdir e lib_src_dir \<or> transport \<notin> {''grpc'', ''mqtt''}"
  shows "\<exists>l. build_for_tidy_with_conan e lib_src_dir transport out =
               (Inl (SystemExit 1), out @ [Stderr (''Error: '' @ l)])"
  using assms by (auto simp add: build_for_tidy_with_conan_def error_exit_def)

text \<open>The eight ways a call can go, as a case rule.\<close>

lemma build_outcome_cases:
  obtains
    (no_path) "lib_src_dir = []"
      "build_for_tidy_with_conan e lib_src_dir transport out =
         (Inl (SystemExit 1), out @ [Stderr ''Error: Library source directory not provided.''])"
  | (no_directory) "lib_src_dir \<noteq> []" "\<not> isdir e lib_src_dir"
      "build_for_tidy_with_conan e lib_src_dir transport out =
         (Inl (SystemExit 1),
          out @ [Stderr (''Error: Library source directory does not exist: '' @ lib_src_dir)])"
  | (no_transport) "lib_src_dir \<noteq> []" "isdir e lib_src_dir" "transport \<notin> {''grpc'', ''mqtt''}"
      "build_for_tidy_with_conan e lib_src_dir transport out =
         (Inl (SystemExit 1), out @ [Stderr ''Error: Transport should one of: 'grpc' or 'mqtt'.''])"
  | (detect_not_started) x where
      "lib_src_dir \<noteq> []" "isdir e lib_src_dir" "transport \<in> {''grpc'', ''mqtt''}"
      "subprocess_run e conan_profile_detect_cmd None = StartFailed x"
      "build_for_tidy_with_conan e lib_src_dir transport out =
         (Inl (Uncaught x),
          out @ [Stdout ''Detecting Conan profile...'', Run conan_profile_detect_cmd None])"
  | (detect_nonzero) rc where
      "lib_src_dir \<noteq> []" "isdir e lib_src_dir" "transport \<in> {''grpc'', ''mqtt''}"
      "subprocess_run e conan_profile_detect_cmd None = Completed rc" "rc \<noteq> 0"
      "build_for_tidy_with_conan e lib_src_dir transport out =
         (Inl (SystemExit 1),
          out @ [Stdout ''Detecting Conan profile...'', Run conan_profile_detect_cmd None,
                 Stderr ''Error: Conan profile detection failed.''])"
  | (build_not_started) x where
      "lib_src_dir \<noteq> []" "isdir e lib_src_dir" "transport \<in> {''grpc'', ''mqtt''}"
      "subprocess_run e conan_profile_detect_cmd None = Completed 0"
      "subprocess_run e (conan_lib_build_cmd lib_src_dir transport) None = StartFailed x"
      "build_for_tidy_with_conan e lib_src_dir transport out =
         (Inl (Uncaught x),
          out @ [Stdout ''Detecting Conan profile...'', Run conan_profile_detect_cmd None,
                 Stdout ''Building library to generate compilation database...'',
                 Run (conan_lib_build_cmd lib_src_dir transport) None])"
  | (build_nonzero) rc where
      "lib_src_dir \<noteq> []" "isdir e lib_src_dir" "transport \<in> {''grpc'', ''mqtt''}"
      "subprocess_run e conan_profile_detect_cmd None = Completed 0"
      "subprocess_run e (conan_lib_build_cmd lib_src_dir transport) None = Completed rc"
      "rc \<noteq> 0"
      "build_for_tidy_with_conan e lib_src_dir transport out =
         (Inl (SystemExit 1),
          out @ [Stdout ''Detecting Conan profile...'', Run conan_profile_detect_cmd None,
                 Stdout ''Building library to generate compilation database...'',
                 Run (conan_lib_build_cmd lib_src_dir transport) None,
                 Stderr ''Error: Failed to build library.''])"
  | (complete)
      "lib_src_dir \<noteq> []" "isdir e lib_src_dir" "transport \<in> {''grpc'', ''mqtt''}"
      "subprocess_run e conan_profile_detect_cmd None = Completed 0"
      "subprocess_run e (conan_lib_build_cmd lib_src_dir transport) None = Completed 0"
      "build_for_tidy_with_conan e lib_src_dir transport out =
         (Inr (),
          out @ [Stdout ''Detecting Conan profile...'', Run conan_profile_detect_cmd None,
                 Stdout ''Building library to generate compilation database...'',
                 Run (conan_lib_build_cmd lib_src_dir transport) None,
                 Stdout ''Conan build process complete.''])"
proof (cases "lib_src_dir \<noteq> [] \<and> isdir e lib_src_dir \<and> transport \<in> {''grpc'', ''mqtt''}")
  case False
  then consider "lib_src_dir = []" | "lib_src_dir \<noteq> []" "\<not> isdir e lib_src_dir"
    | "lib_src_dir \<noteq> []" "isdir e lib_src_dir" "transport \<notin> {''grpc'', ''mqtt''}"
    by blast
  then show thesis
  proof cases
    case 1
    then show thesis
      by (intro no_path) (simp_all add: build_for_tidy_with_conan_def error_exit_def)
  next
    case 2
    then show thesis
      by (intro no_directory) (simp_all add: build_for_tidy_with_conan_def error_exit_def)
  next
    case 3
    then show thesis
      by (intro no_transport) (simp_all add: build_for_tidy_with_conan_def error_exit_def)
  qed
next
  case True
  then have valid: "lib_src_dir \<noteq> []" "isdir e lib_src_dir" "transport \<in> {''grpc'', ''mqtt''}"
    by simp_all
  show thesis
  proof (cases "subprocess_run e conan_profile_detect_cmd None")
    case (StartFailed x)
    with valid show thesis
      by (intro detect_not_started [of x]) (simp_all add: build_detect_not_started)
  next
    case detect: (Completed rc)
    show thesis
    proof (cases "rc = 0")
      case False
      with valid detect show thesis
        by (intro detect_nonzero [of rc]) (simp_all add: build_detect_nonzero)
    next
      case True
      with detect have detect0: "subprocess_run e conan_profile_detect_cmd None = Completed 0"
        by simp
      show thesis
      proof (cases "subprocess_run e (conan_lib_build_cmd lib_src_dir transport) None")
        case (StartFailed x)
        with valid detect0 show thesis
          by (intro build_not_started [of x]) (simp_all add: build_build_not_started)
      next
        case build: (Completed rc')
        show thesis
        proof (cases "rc' = 0")
          case True
          with valid detect0 build show thesis
            by (intro complete) (simp_all add: build_complete)
        next
          case False
          with valid detect0 build show thesis
            by (intro build_nonzero [of rc']) (simp_all add: build_build_nonzero)
        qed
      qed
    qed
  qed
qed

text \<open>
  The commands a run starts are a prefix of: profile detection, then the build command.
\<close>

lemma build_runs:
  "\<exists>started. runs (snd (build_for_tidy_with_conan e lib_src_dir transport out)) =
               runs out @ started
     \<and> started \<in> {[], [conan_profile_detect_cmd],
                    [conan_profile_detect_cmd, conan_lib_build_cmd lib_src_dir transport]}"
  by (cases rule: build_outcome_cases [of lib_src_dir e transport out])
    (simp_all add: runs_append)



section \<open>Properties of the argument parser\<close>

subsection \<open>The argument parser\<close>








subsection \<open>A transport outside the choices as second argument\<close>





subsection \<open>What the parser hands over, and how it exits\<close>











subsection \<open>The call from the entry point\<close>



subsection \<open>Command lines with at most one double dash\<close>
















section \<open>Properties of the recipe\<close>

lemma settings_os_Pkg: "settings_os (Pkg os) = os"
  by (simp add: Pkg_def)

section \<open>The claims about the helper\<close>

text \<open>
  C1. A direct call of \<open>build_for_tidy_with_conan\<close> validates fail-fast in the order: empty
  path, path that is no directory, transport outside grpc/mqtt. The first check that fails
  prints one line to stderr and exits with status 1, and nothing else happens; whenever the
  call starts a command at all, all three checks have passed.
\<close>

theorem validation_fail_fast:
  "(lib_src_dir = [] \<longrightarrow>
      build_for_tidy_with_conan e lib_src_dir transport out =
        (Inl (SystemExit 1), out @ [Stderr ''Error: Library source directory not provided.'']))
   \<and> (lib_src_dir \<noteq> [] \<and> \<not> isdir e lib_src_dir \<longrightarrow>
      build_for_tidy_with_conan e lib_src_dir transport out =
        (Inl (SystemExit 1),
         out @ [Stderr (''Error: Library source directory does not exist: '' @ lib_src_dir)]))
   \<and> (lib_src_dir \<noteq> [] \<and> isdir e lib_src_dir \<and> transport \<notin> {''grpc'', ''mqtt''} \<longrightarrow>
      build_for_tidy_with_conan e lib_src_dir transport out =
        (Inl (SystemExit 1), out @ [Stderr ''Error: Transport should one of: 'grpc' or 'mqtt'.'']))
   \<and> (runs (snd (build_for_tidy_with_conan e lib_src_dir transport out)) \<noteq> runs out \<longrightarrow>
      lib_src_dir \<noteq> [] \<and> isdir e lib_src_dir \<and> transport \<in> {''grpc'', ''mqtt''})"
  by (auto simp add: build_for_tidy_with_conan_def error_exit_def runs_append)

theorem validation_fail_fast_witness:
  "build_for_tidy_with_conan env_ok [] ''http'' [] =
     (Inl (SystemExit 1), [Stderr ''Error: Library source directory not provided.''])
   \<and> build_for_tidy_with_conan env_ok ''nowhere'' ''http'' [] =
     (Inl (SystemExit 1), [Stderr ''Error: Library source directory does not exist: nowhere''])
   \<and> build_for_tidy_with_conan env_ok ''sdk'' ''http'' [] =
     (Inl (SystemExit 1), [Stderr ''Error: Transport should one of: 'grpc' or 'mqtt'.''])
   \<and> runs (snd (build_for_tidy_with_conan env_ok ''sdk'' ''mqtt'' [])) \<noteq> runs []
   \<and> isdir env_ok ''sdk''"
proof -
  have r: "runs (snd (build_for_tidy_with_conan env_ok ''sdk'' ''mqtt'' [])) \<noteq> runs []"
    by (simp add: build_valid run_command_returned_zero env_ok_def)
  show ?thesis
    using validation_fail_fast [of "[]" env_ok "''http''" "[]"]
      validation_fail_fast [of "''nowhere''" env_ok "''http''" "[]"]
      validation_fail_fast [of "''sdk''" env_ok "''http''" "[]"]
      validation_fail_fast [of "''sdk''" env_ok "''mqtt''" "[]"] r
    by (simp add: env_ok_def)
qed

text \<open>
  C2. For a transport in grpc/mqtt the build command is the fixed ten-argument template with
  \<open>lib_src_dir\<close> in third place and the literal \<^verbatim>\<open>transport=grpc\<close> or \<^verbatim>\<open>transport=mqtt\<close> in its
  options argument; it asks for \<^verbatim>\<open>build_type=Debug\<close>, \<^verbatim>\<open>compiler.cppstd=20\<close> and
  \<^verbatim>\<open>CMAKE_EXPORT_COMPILE_COMMANDS\<close> \<^verbatim>\<open>ON\<close>. With valid arguments and a successful profile
  detection, this is the command the function starts.
\<close>

theorem build_command_template:
  "(transport \<in> {''grpc'', ''mqtt''} \<longrightarrow>
      conan_lib_build_cmd lib_src_dir transport =
        [''conan'', ''build'', lib_src_dir, ''--output-folder=build'', ''--build=missing'',
         (if transport = ''grpc'' then ''--options=&:transport=grpc''
          else ''--options=&:transport=mqtt''),
         ''--settings=build_type=Debug'',
         ''--settings=compiler.cppstd=20'',
         ''--settings:build=compiler.cppstd=20'',
         ''--conf=tools.cmake.cmaketoolchain:extra_variables={'CMAKE_EXPORT_COMPILE_COMMANDS': 'ON'}''])
   \<and> (lib_src_dir \<noteq> [] \<and> isdir e lib_src_dir \<and> transport \<in> {''grpc'', ''mqtt''}
        \<and> subprocess_run e conan_profile_detect_cmd None = Completed 0 \<longrightarrow>
      runs (snd (build_for_tidy_with_conan e lib_src_dir transport out)) =
        runs out @ [conan_profile_detect_cmd, conan_lib_build_cmd lib_src_dir transport])"
proof (intro conjI impI)
  assume "transport \<in> {''grpc'', ''mqtt''}"
  then show "conan_lib_build_cmd lib_src_dir transport =
        [''conan'', ''build'', lib_src_dir, ''--output-folder=build'', ''--build=missing'',
         (if transport = ''grpc'' then ''--options=&:transport=grpc''
          else ''--options=&:transport=mqtt''),
         ''--settings=build_type=Debug'',
         ''--settings=compiler.cppstd=20'',
         ''--settings:build=compiler.cppstd=20'',
         ''--conf=tools.cmake.cmaketoolchain:extra_variables={'CMAKE_EXPORT_COMPILE_COMMANDS': 'ON'}'']"
    by (auto simp add: conan_lib_build_cmd_def)
next
  assume a: "lib_src_dir \<noteq> [] \<and> isdir e lib_src_dir \<and> transport \<in> {''grpc'', ''mqtt''}
        \<and> subprocess_run e conan_profile_detect_cmd None = Completed 0"
  show "runs (snd (build_for_tidy_with_conan e lib_src_dir transport out)) =
        runs out @ [conan_profile_detect_cmd, conan_lib_build_cmd lib_src_dir transport]"
  proof (cases "subprocess_run e (conan_lib_build_cmd lib_src_dir transport) None")
    case (StartFailed x)
    with a show ?thesis
      by (simp add: build_build_not_started runs_append)
  next
    case build: (Completed rc)
    show ?thesis
    proof (cases "rc = 0")
      case True
      with a build show ?thesis
        by (simp add: build_complete runs_append)
    next
      case False
      with a build show ?thesis
        by (simp add: build_build_nonzero runs_append)
    qed
  qed
qed

theorem build_command_template_witness:
  "conan_lib_build_cmd ''sdk'' ''grpc'' ! 5 = ''--options=&:transport=grpc''
   \<and> conan_lib_build_cmd ''sdk'' ''mqtt'' ! 5 = ''--options=&:transport=mqtt''
   \<and> runs (snd (build_for_tidy_with_conan env_ok ''sdk'' ''mqtt'' [])) =
        [conan_profile_detect_cmd, conan_lib_build_cmd ''sdk'' ''mqtt'']"
  using build_command_template [of "''grpc''" "''sdk''" env_ok "[]"]
    build_command_template [of "''mqtt''" "''sdk''" env_ok "[]"]
  by (simp add: env_ok_def)

text \<open>
  C4. With a valid directory and a valid transport, a profile detection that returns
  non-zero makes the function print \<^verbatim>\<open>Error: Conan profile detection failed.\<close> on stderr and
  exit with status 1; the detection was started once and the build command never. In every
  run, the commands started are a prefix of the sequence: detection, build.
\<close>

theorem profile_detection_failure:
  "(lib_src_dir \<noteq> [] \<and> isdir e lib_src_dir \<and> transport \<in> {''grpc'', ''mqtt''}
      \<and> subprocess_run e conan_profile_detect_cmd None = Completed returncode
      \<and> returncode \<noteq> 0 \<longrightarrow>
      build_for_tidy_with_conan e lib_src_dir transport out =
        (Inl (SystemExit 1),
         out @ [Stdout ''Detecting Conan profile...'', Run conan_profile_detect_cmd None,
                Stderr ''Error: Conan profile detection failed.'']))
   \<and> (\<exists>started. runs (snd (build_for_tidy_with_conan e lib_src_dir transport out)) =
                   runs out @ started
        \<and> started \<in> {[], [conan_profile_detect_cmd],
                       [conan_profile_detect_cmd, conan_lib_build_cmd lib_src_dir transport]})"
  using build_runs [of e lib_src_dir transport out]
  by (simp add: build_detect_nonzero)

theorem profile_detection_failure_witness:
  "build_for_tidy_with_conan env_no_profile ''sdk'' ''grpc'' [] =
     (Inl (SystemExit 1),
      [Stdout ''Detecting Conan profile...'', Run conan_profile_detect_cmd None,
       Stderr ''Error: Conan profile detection failed.''])"
  using profile_detection_failure [of "''sdk''" env_no_profile "''grpc''" 1 "[]"]
  by (simp add: env_no_profile_def)

text \<open>
  C9. \<open>run_command\<close> has no handler for a command that cannot be started: the exception
  leaves the function uncaught and no line is printed. So when profile detection, or the
  build after a successful detection, cannot be started, the helper dies of the uncaught
  exception and stderr holds no line of \<open>error_exit\<close>.
\<close>

theorem start_failure_uncaught:
  "(subprocess_run e command cwd = StartFailed x \<longrightarrow>
      run_command e command cwd error_message out = (Inl (Uncaught x), out @ [Run command cwd]))
   \<and> (lib_src_dir \<noteq> [] \<and> isdir e lib_src_dir \<and> transport \<in> {''grpc'', ''mqtt''}
        \<and> subprocess_run e conan_profile_detect_cmd None = StartFailed x \<longrightarrow>
      build_for_tidy_with_conan e lib_src_dir transport out =
        (Inl (Uncaught x),
         out @ [Stdout ''Detecting Conan profile...'', Run conan_profile_detect_cmd None])
      \<and> stderr_lines (snd (build_for_tidy_with_conan e lib_src_dir transport out)) =
          stderr_lines out)
   \<and> (lib_src_dir \<noteq> [] \<and> isdir e lib_src_dir \<and> transport \<in> {''grpc'', ''mqtt''}
        \<and> subprocess_run e conan_profile_detect_cmd None = Completed 0
        \<and> subprocess_run e (conan_lib_build_cmd lib_src_dir transport) None = StartFailed x \<longrightarrow>
      build_for_tidy_with_conan e lib_src_dir transport out =
        (Inl (Uncaught x),
         out @ [Stdout ''Detecting Conan profile...'', Run conan_profile_detect_cmd None,
                Stdout ''Building library to generate compilation database...'',
                Run (conan_lib_build_cmd lib_src_dir transport) None])
      \<and> stderr_lines (snd (build_for_tidy_with_conan e lib_src_dir transport out)) =
          stderr_lines out)"
  by (simp add: run_command_not_started build_detect_not_started build_build_not_started
      stderr_lines_append)

theorem start_failure_uncaught_witness:
  "run_command env_no_conan conan_profile_detect_cmd None
       (Some ''Conan profile detection failed.'') [] =
     (Inl (Uncaught FileNotFoundError), [Run conan_profile_detect_cmd None])
   \<and> build_for_tidy_with_conan env_no_conan ''sdk'' ''mqtt'' [] =
     (Inl (Uncaught FileNotFoundError),
      [Stdout ''Detecting Conan profile...'', Run conan_profile_detect_cmd None])
   \<and> stderr_lines (snd (build_for_tidy_with_conan env_no_conan ''sdk'' ''mqtt'' [])) = []
   \<and> build_for_tidy_with_conan env_build_not_started ''sdk'' ''mqtt'' [] =
     (Inl (Uncaught PermissionError),
      [Stdout ''Detecting Conan profile...'', Run conan_profile_detect_cmd None,
       Stdout ''Building library to generate compilation database...'',
       Run (conan_lib_build_cmd ''sdk'' ''mqtt'') None])
   \<and> stderr_lines (snd (build_for_tidy_with_conan env_build_not_started ''sdk'' ''mqtt'' [])) = []"
proof -
  have differ: "conan_lib_build_cmd ''sdk'' ''mqtt'' \<noteq> conan_profile_detect_cmd"
    by (simp add: conan_lib_build_cmd_def conan_profile_detect_cmd_def)
  show ?thesis
    using start_failure_uncaught [of env_no_conan conan_profile_detect_cmd None FileNotFoundError
        "Some ''Conan profile detection failed.''" "[]" "''sdk''" "''mqtt''"]
      start_failure_uncaught [of env_build_not_started conan_profile_detect_cmd None
        PermissionError "Some ''Conan profile detection failed.''" "[]" "''sdk''" "''mqtt''"]
      differ
    by (simp add: env_no_conan_def env_build_not_started_def)
qed

text \<open>
  C10. The build command a run starts is determined by \<open>lib_src_dir\<close> and \<open>transport\<close>
  alone: two runs with the same two arguments, in any two environments and after any two
  histories, that both get as far as a second command start the same list, which is
  \<open>conan_lib_build_cmd lib_src_dir transport\<close>.
\<close>

theorem build_command_deterministic:
  assumes "runs (snd (build_for_tidy_with_conan e1 lib_src_dir transport out1)) =
             runs out1 @ [first1, second1]"
    and "runs (snd (build_for_tidy_with_conan e2 lib_src_dir transport out2)) =
             runs out2 @ [first2, second2]"
  shows "second1 = second2 \<and> second1 = conan_lib_build_cmd lib_src_dir transport"
proof -
  have "second = conan_lib_build_cmd lib_src_dir transport"
    if "runs (snd (build_for_tidy_with_conan e lib_src_dir transport out)) =
          runs out @ [first, second]"
    for e out first second
  proof -
    from build_runs [of e lib_src_dir transport out] obtain started where
      "runs (snd (build_for_tidy_with_conan e lib_src_dir transport out)) = runs out @ started"
      and "started \<in> {[], [conan_profile_detect_cmd],
                       [conan_profile_detect_cmd, conan_lib_build_cmd lib_src_dir transport]}"
      by blast
    with that show ?thesis
      by auto
  qed
  from this [OF assms(1)] this [OF assms(2)] show ?thesis
    by simp
qed

theorem build_command_deterministic_witness:
  "runs (snd (build_for_tidy_with_conan env_ok ''sdk'' ''grpc'' [])) =
     runs [] @ [conan_profile_detect_cmd, conan_lib_build_cmd ''sdk'' ''grpc'']
   \<and> runs (snd (build_for_tidy_with_conan env_build_fails ''sdk'' ''grpc''
                  [Run [''git'', ''status''] None])) =
     runs [Run [''git'', ''status''] None]
       @ [conan_profile_detect_cmd, conan_lib_build_cmd ''sdk'' ''grpc'']
   \<and> conan_lib_build_cmd ''sdk'' ''grpc'' = conan_lib_build_cmd ''sdk'' ''grpc''"
proof -
  have differ: "conan_lib_build_cmd ''sdk'' ''grpc'' \<noteq> conan_profile_detect_cmd"
    by (simp add: conan_lib_build_cmd_def conan_profile_detect_cmd_def)
  have one: "runs (snd (build_for_tidy_with_conan env_ok ''sdk'' ''grpc'' [])) =
     runs [] @ [conan_profile_detect_cmd, conan_lib_build_cmd ''sdk'' ''grpc'']"
    by (simp add: build_complete env_ok_def)
  have two: "runs (snd (build_for_tidy_with_conan env_build_fails ''sdk'' ''grpc''
                  [Run [''git'', ''status''] None])) =
     runs [Run [''git'', ''status''] None]
       @ [conan_profile_detect_cmd, conan_lib_build_cmd ''sdk'' ''grpc'']"
    using differ
    by (simp add: build_build_nonzero [where rc = 1] env_build_fails_def)
  from build_command_deterministic [OF one two] one two show ?thesis
    by simp
qed










section \<open>The claims about the package recipe\<close>

text \<open>
  C5. After \<open>config_options\<close>, a recipe whose os setting is Windows has no fPIC option, and a
  recipe with any other os setting is unchanged. Starting from the declared defaults, the
  options on Windows are shared (false) alone, and on any other os they are fPIC (true) and
  shared (false).
\<close>

theorem config_options_fPIC:
  "(settings_os self = ''Windows'' \<longrightarrow> ''fPIC'' \<notin> dom (options (config_options self)))
   \<and> (settings_os self \<noteq> ''Windows'' \<longrightarrow> config_options self = self)
   \<and> (os = ''Windows'' \<longrightarrow>
        ''fPIC'' \<notin> dom (options (config_options (Pkg os)))
        \<and> options (config_options (Pkg os)) ''shared'' = Some False)
   \<and> (os \<noteq> ''Windows'' \<longrightarrow>
        options (config_options (Pkg os)) ''fPIC'' = Some True
        \<and> options (config_options (Pkg os)) ''shared'' = Some False
        \<and> dom (options (config_options (Pkg os))) = {''shared'', ''fPIC''})"
  by (auto simp add: config_options_def Pkg_def Pkg_default_options_def split: if_splits)

theorem config_options_fPIC_witness:
  "''fPIC'' \<notin> dom (options (config_options (Pkg ''Windows'')))
   \<and> options (config_options (Pkg ''Windows'')) ''shared'' = Some False
   \<and> options (config_options (Pkg ''Linux'')) ''fPIC'' = Some True
   \<and> options (config_options (Pkg ''Linux'')) ''shared'' = Some False"
proof -
  have windows: "settings_os (Pkg ''Windows'') = ''Windows''"
    and linux: "settings_os (Pkg ''Linux'') \<noteq> ''Windows''" "''Linux'' \<noteq> ''Windows''"
    by (simp_all add: settings_os_Pkg)
  from config_options_fPIC [of "Pkg ''Windows''" "''Windows''"] windows
  have "''fPIC'' \<notin> dom (options (config_options (Pkg ''Windows'')))
     \<and> options (config_options (Pkg ''Windows'')) ''shared'' = Some False"
    by blast
  moreover from config_options_fPIC [of "Pkg ''Linux''" "''Linux''"] linux
  have "options (config_options (Pkg ''Linux'')) ''fPIC'' = Some True
     \<and> options (config_options (Pkg ''Linux'')) ''shared'' = Some False"
    by blast
  ultimately show ?thesis
    by blast
qed

text \<open>
  C7. \<open>requirements\<close> declares four references, in this order: cpr 1.12.0,
  nlohmann_json 3.12.0, tomlplusplus 3.4.0 and astarte-device-sdk 0.7.0. It adds them after
  whatever was declared before, which it leaves as it was, and touches neither the settings
  nor the options; on a fresh recipe these four are all the requirements, whatever the os.
\<close>

theorem requirements_pinned:
  "requires (requirements self) =
     requires self @ [''cpr/1.12.0'', ''nlohmann_json/3.12.0'', ''tomlplusplus/3.4.0'',
                      ''astarte-device-sdk/0.7.0'']
   \<and> settings_os (requirements self) = settings_os self
   \<and> options (requirements self) = options self
   \<and> map ref_name_version (requires (requirements (Pkg os))) =
       [(''cpr'', ''1.12.0''), (''nlohmann_json'', ''3.12.0''), (''tomlplusplus'', ''3.4.0''),
        (''astarte-device-sdk'', ''0.7.0'')]"
  by (simp add: requirements_def self_requires_def Pkg_def ref_name_version_def)

end
